theory Spec2Isabelle
  imports Complex_Main "HOL-Library.FSet"
begin

section \<open>The media-element audio-routing manager (audioManager.js)\<close>

text \<open>
  A shallow embedding of the class \<open>AudioManager\<close>. The manager is single-threaded
  and every method runs to completion, so a method is a function from the state before
  the call to the value returned and the state after it. Whatever the browser decides
  (whether a constructor throws, what origin a URL has) is an explicit argument, so every
  theorem holds for every behaviour of the platform.
\<close>

subsection \<open>Platform values\<close>

text \<open>A thrown JavaScript exception; only its \<open>message\<close> is ever read, for logging.\<close>

datatype js_error = JsError (message: string)

text \<open>Handles of the objects the Web Audio API hands out.\<close>

datatype audio_context = AudioContext nat

datatype source_node = MediaElementSource nat

text \<open>
  A gain node; \<open>gain_value\<close> is \<open>gainNode.gain.value\<close>. JavaScript numbers are
  modelled by the reals: the value stored is the mathematical quotient, the rounding of
  IEEE arithmetic is not part of the model.
\<close>

record gain_node =
  gain_value :: real

text \<open>
  A media element as a method sees it when it is called: its identity and the attributes
  the manager reads. \<open>crossOrigin\<close> is \<open>None\<close> for the JavaScript \<open>null\<close>;
  \<open>sourceSrc\<close> is \<open>element.querySelector('source')?.src\<close>, \<open>None\<close> when the
  element has no nested source tag. The page may change the attributes between two calls,
  so they travel with the call; the identity does not change.
\<close>

record element =
  elem_id :: nat
  crossOrigin :: "string option"
  src :: string
  currentSrc :: string
  sourceSrc :: "string option"

text \<open>
  What \<open>window.location\<close> and the \<open>URL\<close> constructor answer: the hostname and
  origin of the page, and \<open>new URL(s).origin\<close>, which is \<open>None\<close> when the
  constructor throws.
\<close>

record env =
  hostname :: string
  pageOrigin :: string
  url_origin :: "string \<Rightarrow> string option"

subsection \<open>Manager state\<close>

text \<open>
  The five fields of the constructor, and \<open>audioSource\<close>: the property
  \<open>_audioSource\<close> that \<open>tryConnectToAudioContext\<close> stores on the element itself.
  It is kept per element identity, outside the manager's own fields, so it outlives
  \<open>reset\<close> and is seen by a later manager instance.
\<close>

record state =
  audioContext :: "audio_context option"
  gainNode :: "gain_node option"
  connectedElements :: "nat fset"
  blockedSites :: "string set"
  blockedElements :: "nat set"
  audioSource :: "nat \<Rightarrow> source_node option"

definition fresh :: "(nat \<Rightarrow> source_node option) \<Rightarrow> state" where
  "fresh markers =
     \<lparr>audioContext = None, gainNode = None, connectedElements = {||},
      blockedSites = {}, blockedElements = {}, audioSource = markers\<rparr>"

text \<open>
  Modelled from the spec: the constant \<open>VOLUME_MAX\<close> is imported from
  \<open>constants.js\<close>, which is not among the sources. The spec gives the reference as
  100 (\<open>volumePercent / 100\<close>, 100% = unity gain).
\<close>

definition VOLUME_MAX :: real where
  "VOLUME_MAX = 100"

subsection \<open>Graph initialisation\<close>

text \<open>
  The three statements inside the \<open>try\<close> of \<open>initAudioContext\<close> each call the
  platform, and each may throw; the outcome says how far the construction got.
\<close>

datatype init_outcome =
    ApiUnavailable
  | ConstructorThrows js_error
  | CreateGainThrows audio_context js_error
  | ConnectDestinationThrows audio_context gain_node js_error
  | Constructed audio_context gain_node

fun initAudioContext :: "init_outcome \<Rightarrow> state \<Rightarrow> bool \<times> state" where
  "initAudioContext outcome s =
     (if audioContext s = None then
        (case outcome of
           ApiUnavailable \<Rightarrow> (False, s)
         | ConstructorThrows e \<Rightarrow> (False, s)
         | CreateGainThrows c e \<Rightarrow> (False, s\<lparr>audioContext := Some c\<rparr>)
         | ConnectDestinationThrows c g e \<Rightarrow>
             (False, s\<lparr>audioContext := Some c, gainNode := Some g\<rparr>)
         | Constructed c g \<Rightarrow> (True, s\<lparr>audioContext := Some c, gainNode := Some g\<rparr>))
      else (True, s))"

subsection \<open>Origin-level blocking\<close>

text \<open>\<open>String.prototype.toLowerCase\<close> on the ASCII letters a hostname is made of.\<close>

definition toLowerCase_char :: "char \<Rightarrow> char" where
  "toLowerCase_char c =
     (let n = (of_char c :: nat) in if 65 \<le> n \<and> n \<le> 90 then char_of (n + 32) else c)"

definition toLowerCase :: "string \<Rightarrow> string" where
  "toLowerCase str = map toLowerCase_char str"

definition isSiteBlocked :: "env \<Rightarrow> state \<Rightarrow> bool" where
  "isSiteBlocked ev s = (toLowerCase (hostname ev) \<in> blockedSites s)"

definition markSiteAsBlocked :: "env \<Rightarrow> state \<Rightarrow> state" where
  "markSiteAsBlocked ev s = s\<lparr>blockedSites := insert (toLowerCase (hostname ev)) (blockedSites s)\<rparr>"

subsection \<open>Cross-origin check\<close>

definition startsWith :: "string \<Rightarrow> string \<Rightarrow> bool" where
  "startsWith str p = (take (length p) str = p)"

text \<open>
  The first \<open>if\<close> of \<open>isCrossOriginElement\<close>: \<open>Some r\<close> when it returns \<open>r\<close>,
  \<open>None\<close> when control falls through to the rest of the method.
\<close>

definition currentSrc_check :: "env \<Rightarrow> element \<Rightarrow> bool option" where
  "currentSrc_check ev el =
     (if crossOrigin el = None \<and> currentSrc el \<noteq> [] then
        (case url_origin ev (currentSrc el) of
           None \<Rightarrow> Some True
         | Some srcOrigin \<Rightarrow> if srcOrigin \<noteq> pageOrigin ev then Some True else None)
      else None)"

text \<open>\<open>[src, currentSrc, querySelector('source')?.src].filter(Boolean)\<close>\<close>

definition sources :: "element \<Rightarrow> string list" where
  "sources el =
     filter (\<lambda>u. u \<noteq> [])
       ([src el, currentSrc el] @ (case sourceSrc el of None \<Rightarrow> [] | Some u \<Rightarrow> [u]))"

text \<open>The callback given to \<open>some\<close>; \<open>None\<close> when \<open>new URL\<close> throws.\<close>

definition source_differs :: "env \<Rightarrow> string \<Rightarrow> bool option" where
  "source_differs ev u =
     (if startsWith u ''blob:'' then Some False
      else if startsWith u ''data:'' then Some False
      else (case url_origin ev u of
              None \<Rightarrow> None
            | Some srcOrigin \<Rightarrow> Some (srcOrigin \<noteq> pageOrigin ev)))"

text \<open>
  \<open>Array.prototype.some\<close>: left to right, stops at the first \<open>true\<close>, and an
  exception of the callback leaves the loop.
\<close>

fun some_differs :: "env \<Rightarrow> string list \<Rightarrow> bool option" where
  "some_differs ev [] = Some False"
| "some_differs ev (u # us) =
     (case source_differs ev u of
        None \<Rightarrow> None
      | Some True \<Rightarrow> Some True
      | Some False \<Rightarrow> some_differs ev us)"

definition isCrossOriginElement :: "env \<Rightarrow> element \<Rightarrow> bool" where
  "isCrossOriginElement ev el =
     (case currentSrc_check ev el of
        Some r \<Rightarrow> r
      | None \<Rightarrow>
          if sources el = [] then False
          else (case some_differs ev (sources el) of
                  None \<Rightarrow> True
                | Some r \<Rightarrow> r))"

subsection \<open>Per-element block decision\<close>

definition shouldBlockAmplification :: "env \<Rightarrow> state \<Rightarrow> element \<Rightarrow> bool" where
  "shouldBlockAmplification ev s el =
     (if elem_id el \<in> blockedElements s then True else isCrossOriginElement ev el)"

subsection \<open>Connection\<close>

text \<open>
  The calls \<open>tryConnectToAudioContext\<close> makes to the platform are returned with its
  result, so that a theorem can say that no binding was attempted.
\<close>

datatype platform_call = CreateMediaElementSource nat | ConnectToGain nat

text \<open>
  The \<open>try\<close> block: \<open>createMediaElementSource\<close> may throw, and so may
  \<open>source.connect\<close> after it. Then the element is added to
  \<open>connectedElements\<close>, and only after that is the source stored in the element's
  \<open>_audioSource\<close>. The module is strict code, so this store throws when the element
  does not accept the new property (it is not extensible, or a setter throws); the
  \<open>catch\<close> then runs with the element already in \<open>connectedElements\<close>.
\<close>

datatype bind_outcome =
    CreateSourceThrows js_error
  | ConnectSourceThrows source_node js_error
  | MarkerStoreThrows source_node js_error
  | Bound source_node

fun tryConnectToAudioContext ::
    "env \<Rightarrow> bind_outcome \<Rightarrow> state \<Rightarrow> element \<Rightarrow> bool \<times> platform_call list \<times> state" where
  "tryConnectToAudioContext ev outcome s el =
     (if audioContext s = None \<or> gainNode s = None then (False, [], s)
      else if elem_id el |\<in>| connectedElements s then (True, [], s)
      else if audioSource s (elem_id el) \<noteq> None then
        (True, [], s\<lparr>connectedElements := finsert (elem_id el) (connectedElements s)\<rparr>)
      else if shouldBlockAmplification ev s el then (False, [], s)
      else
        (case outcome of
           Bound source \<Rightarrow>
             (True, [CreateMediaElementSource (elem_id el), ConnectToGain (elem_id el)],
              s\<lparr>connectedElements := finsert (elem_id el) (connectedElements s),
                audioSource := (audioSource s)(elem_id el := Some source)\<rparr>)
         | CreateSourceThrows e \<Rightarrow>
             (False, [CreateMediaElementSource (elem_id el)],
              s\<lparr>blockedElements := insert (elem_id el) (blockedElements s)\<rparr>)
         | ConnectSourceThrows source e \<Rightarrow>
             (False, [CreateMediaElementSource (elem_id el), ConnectToGain (elem_id el)],
              s\<lparr>blockedElements := insert (elem_id el) (blockedElements s)\<rparr>)
         | MarkerStoreThrows source e \<Rightarrow>
             (False, [CreateMediaElementSource (elem_id el), ConnectToGain (elem_id el)],
              s\<lparr>connectedElements := finsert (elem_id el) (connectedElements s),
                blockedElements := insert (elem_id el) (blockedElements s)\<rparr>)))"

subsection \<open>Gain, availability, cleanup, reset\<close>

definition setGainValue :: "env \<Rightarrow> real \<Rightarrow> state \<Rightarrow> state" where
  "setGainValue ev volume s =
     (case gainNode s of
        None \<Rightarrow> s
      | Some g \<Rightarrow>
          if \<not> isSiteBlocked ev s \<and> fcard (connectedElements s) > 0
          then s\<lparr>gainNode := Some (g\<lparr>gain_value := volume / VOLUME_MAX\<rparr>)\<rparr>
          else s)"

text \<open>
  \<open>!isSiteBlocked() && (audioContext || initAudioContext())\<close>: the value returned
  is the context object or a boolean; the model returns whether it is truthy.
\<close>

definition isAmplificationAvailable :: "env \<Rightarrow> init_outcome \<Rightarrow> state \<Rightarrow> bool \<times> state" where
  "isAmplificationAvailable ev outcome s =
     (if isSiteBlocked ev s then (False, s)
      else if audioContext s \<noteq> None then (True, s)
      else initAudioContext outcome s)"

text \<open>
  \<open>cleanupAudioSource\<close> only deletes the element from \<open>connectedElements\<close>;
  the source node stored on the element is left alone.
\<close>

definition cleanupAudioSource :: "element \<Rightarrow> state \<Rightarrow> state" where
  "cleanupAudioSource el s = s\<lparr>connectedElements := connectedElements s |-| {|elem_id el|}\<rparr>"

text \<open>\<open>audioContext.close()\<close> may throw; \<open>reset\<close> catches it and goes on.\<close>

datatype close_outcome = Closed | CloseThrows js_error

definition reset :: "close_outcome \<Rightarrow> state \<Rightarrow> state" where
  "reset outcome s =
     (let s1 = s\<lparr>blockedSites := {}, blockedElements := {}\<rparr>;
          s2 = (if audioContext s1 \<noteq> None
                then (case outcome of
                        Closed \<Rightarrow> s1\<lparr>audioContext := None, gainNode := None\<rparr>
                      | CloseThrows e \<Rightarrow> s1\<lparr>audioContext := None, gainNode := None\<rparr>)
                else s1)
      in s2\<lparr>connectedElements := {||}\<rparr>)"

definition getConnectedElementsCount :: "state \<Rightarrow> nat" where
  "getConnectedElementsCount s = fcard (connectedElements s)"

subsection \<open>Sequences of calls\<close>

text \<open>
  One call of a method of the manager, with what the platform answers during the call.
  \<open>run\<close> performs a sequence of calls, each on the page as it is at that moment.
  \<open>shouldBlockAmplification\<close> and the cross-origin check contain no assignment, so
  their step returns the state it was given.
\<close>

datatype op =
    EnsureGraph init_outcome
  | IsAvailable init_outcome
  | MarkOriginBlocked
  | ShouldBlock element
  | Connect element bind_outcome
  | SetGain real
  | Untrack element
  | Reset close_outcome

fun step :: "env \<Rightarrow> op \<Rightarrow> state \<Rightarrow> state" where
  "step ev (EnsureGraph outcome) s = snd (initAudioContext outcome s)"
| "step ev (IsAvailable outcome) s = snd (isAmplificationAvailable ev outcome s)"
| "step ev MarkOriginBlocked s = markSiteAsBlocked ev s"
| "step ev (ShouldBlock el) s = s"
| "step ev (Connect el outcome) s = snd (snd (tryConnectToAudioContext ev outcome s el))"
| "step ev (SetGain volume) s = setGainValue ev volume s"
| "step ev (Untrack el) s = cleanupAudioSource el s"
| "step ev (Reset outcome) s = reset outcome s"

fun run :: "(env \<times> op) list \<Rightarrow> state \<Rightarrow> state" where
  "run [] s = s"
| "run ((ev, c) # cs) s = run cs (step ev c s)"

fun is_reset :: "op \<Rightarrow> bool" where
  "is_reset (Reset outcome) = True"
| "is_reset c = False"

text \<open>The calls that take the element \<open>e\<close> out of \<open>connectedElements\<close>.\<close>

fun drops :: "nat \<Rightarrow> op \<Rightarrow> bool" where
  "drops e (Reset outcome) = True"
| "drops e (Untrack el) = (elem_id el = e)"
| "drops e c = False"

text \<open>A connect during which the store of \<open>_audioSource\<close> throws.\<close>

fun marker_store_throws :: "op \<Rightarrow> bool" where
  "marker_store_throws (Connect el (MarkerStoreThrows source e)) = True"
| "marker_store_throws c = False"

subsection \<open>Invariants\<close>

text \<open>A gain node is only ever held together with a context.\<close>

definition gain_has_context :: "state \<Rightarrow> bool" where
  "gain_has_context s = (gainNode s \<noteq> None \<longrightarrow> audioContext s \<noteq> None)"

text \<open>
  Every element in \<open>blockedElements\<close> is untracked and carries no \<open>_audioSource\<close>.
\<close>

definition blocked_unbound :: "state \<Rightarrow> bool" where
  "blocked_unbound s =
     (\<forall>e \<in> blockedElements s. e |\<notin>| connectedElements s \<and> audioSource s e = None)"

text \<open>The same for one element \<open>e\<close>: it failed a binding attempt and stays unbound.\<close>

definition failed_element :: "nat \<Rightarrow> state \<Rightarrow> bool" where
  "failed_element e s =
     (e \<in> blockedElements s \<and> e |\<notin>| connectedElements s \<and> audioSource s e = None)"

text \<open>The element \<open>e\<close> is tracked and the graph it was connected to is there.\<close>

definition tracked_in_graph :: "nat \<Rightarrow> state \<Rightarrow> bool" where
  "tracked_in_graph e s =
     (audioContext s \<noteq> None \<and> gainNode s \<noteq> None \<and> e |\<in>| connectedElements s)"

subsection \<open>A page used in the examples\<close>

text \<open>
  A page at \<open>https://example.com\<close>. Its \<open>URL\<close> constructor answers as the
  browser's does on the strings the examples use: a data URL has the opaque origin,
  serialised as \<open>null\<close>, and on \<open>http://[\<close>, which is not a URL, the
  constructor throws.
\<close>

definition example_page :: env where
  "example_page =
     \<lparr>hostname = ''example.com'', pageOrigin = ''https://example.com'',
      url_origin =
        (\<lambda>u. if u = ''https://example.com/a.mp3'' then Some ''https://example.com''
             else if u = ''https://cdn.example.net/b.mp3'' then Some ''https://cdn.example.net''
             else if startsWith u ''data:'' then Some ''null''
             else None)\<rparr>"

definition same_origin_audio :: element where
  "same_origin_audio =
     \<lparr>elem_id = 1, crossOrigin = None, src = ''https://example.com/a.mp3'',
      currentSrc = ''https://example.com/a.mp3'', sourceSrc = None\<rparr>"

definition data_url_audio :: element where
  "data_url_audio =
     \<lparr>elem_id = 2, crossOrigin = None, src = ''data:audio/wav;base64,AAAA'',
      currentSrc = ''data:audio/wav;base64,AAAA'', sourceSrc = None\<rparr>"

definition unparsable_audio :: element where
  "unparsable_audio =
     \<lparr>elem_id = 3, crossOrigin = Some ''anonymous'', src = ''https://example.com/a.mp3'',
      currentSrc = ''https://example.com/a.mp3'', sourceSrc = Some ''http://[''\<rparr>"

definition no_markers :: "nat \<Rightarrow> source_node option" where
  "no_markers = (\<lambda>e. None)"

definition graph_ok :: init_outcome where
  "graph_ok = Constructed (AudioContext 0) \<lparr>gain_value = 1\<rparr>"

text \<open>The graph is built and the same-origin element is bound to it.\<close>

definition routed_state :: state where
  "routed_state =
     run [(example_page, EnsureGraph graph_ok),
          (example_page, Connect same_origin_audio (Bound (MediaElementSource 0)))]
       (fresh no_markers)"

text \<open>
  The same-origin element does not accept the \<open>_audioSource\<close> property: the
  binding succeeds and the store of the marker throws.
\<close>

definition marker_failure_calls :: "(env \<times> op) list" where
  "marker_failure_calls =
     [(example_page, EnsureGraph graph_ok),
      (example_page,
       Connect same_origin_audio
         (MarkerStoreThrows (MediaElementSource 0) (JsError ''object is not extensible'')))]"

text \<open>A second same-origin element, the graph alone, and a state with a failed binding.\<close>

definition second_audio :: element where
  "second_audio = same_origin_audio\<lparr>elem_id := 4\<rparr>"

definition graph_state :: state where
  "graph_state = run [(example_page, EnsureGraph graph_ok)] (fresh no_markers)"

definition blocked_state :: state where
  "blocked_state =
     run [(example_page, EnsureGraph graph_ok),
          (example_page, Connect same_origin_audio (Bound (MediaElementSource 0))),
          (example_page, MarkOriginBlocked),
          (example_page, Connect second_audio (CreateSourceThrows (JsError ''InvalidStateError'')))]
       (fresh no_markers)"

section \<open>Properties\<close>

lemmas model_defs =
  fresh_def VOLUME_MAX_def isSiteBlocked_def markSiteAsBlocked_def startsWith_def
  currentSrc_check_def sources_def source_differs_def isCrossOriginElement_def
  shouldBlockAmplification_def setGainValue_def isAmplificationAvailable_def
  cleanupAudioSource_def reset_def getConnectedElementsCount_def

lemmas example_defs =
  example_page_def same_origin_audio_def data_url_audio_def unparsable_audio_def
  no_markers_def graph_ok_def routed_state_def

lemma routed_state_eq:
  "routed_state =
     \<lparr>audioContext = Some (AudioContext 0), gainNode = Some \<lparr>gain_value = 1\<rparr>,
      connectedElements = {|1|}, blockedSites = {}, blockedElements = {},
      audioSource = no_markers(1 := Some (MediaElementSource 0))\<rparr>"
  by (simp add: model_defs example_defs)

lemma toLowerCase_example: "toLowerCase ''example.com'' = ''example.com''"
  by code_simp

lemma graph_state_eq:
  "graph_state =
     \<lparr>audioContext = Some (AudioContext 0), gainNode = Some \<lparr>gain_value = 1\<rparr>,
      connectedElements = {||}, blockedSites = {}, blockedElements = {},
      audioSource = no_markers\<rparr>"
  by (simp add: graph_state_def graph_ok_def fresh_def)

lemma blocked_state_eq:
  "blocked_state =
     \<lparr>audioContext = Some (AudioContext 0), gainNode = Some \<lparr>gain_value = 1\<rparr>,
      connectedElements = {|1|}, blockedSites = {''example.com''}, blockedElements = {4},
      audioSource = no_markers(1 := Some (MediaElementSource 0))\<rparr>"
  by (simp add: blocked_state_def second_audio_def model_defs example_defs toLowerCase_example)

subsection \<open>Gain application\<close>

lemma fcard_pos_iff: "0 < fcard A \<longleftrightarrow> A \<noteq> {||}"
proof -
  have "fcard A \<noteq> 0 \<longleftrightarrow> A \<noteq> {||}"
    by (simp only: fcard_0_eq)
  then show ?thesis
    by (simp only: neq0_conv)
qed

text \<open>
  C1. For an integer volume between 0 and 500: when the gain node exists, the site is
  not blocked and at least one element is tracked, \<open>setGainValue\<close> stores exactly
  volume / 100 in the gain node and changes nothing else; when one of the three
  conditions fails it returns the state as it was. The function always returns: none of
  its branches throws.
\<close>

theorem setGainValue_applies_iff_guard:
  fixes v :: int
  assumes "0 \<le> v" and "v \<le> 500"
  shows "(gainNode s \<noteq> None \<and> \<not> isSiteBlocked ev s \<and> connectedElements s \<noteq> {||} \<longrightarrow>
            (\<exists>g. gainNode s = Some g \<and>
                 setGainValue ev (of_int v) s = s\<lparr>gainNode := Some (g\<lparr>gain_value := of_int v / 100\<rparr>)\<rparr>) \<and>
            map_option gain_value (gainNode (setGainValue ev (of_int v) s)) = Some (of_int v / 100))
       \<and> (\<not> (gainNode s \<noteq> None \<and> \<not> isSiteBlocked ev s \<and> connectedElements s \<noteq> {||}) \<longrightarrow>
            setGainValue ev (of_int v) s = s)"
  by (cases "gainNode s") (auto simp: setGainValue_def VOLUME_MAX_def fcard_pos_iff)

theorem setGainValue_applies_iff_guard_witness:
  "(0::int) \<le> 200 \<and> (200::int) \<le> 500
   \<and> gainNode routed_state \<noteq> None \<and> \<not> isSiteBlocked example_page routed_state
   \<and> connectedElements routed_state \<noteq> {||}
   \<and> map_option gain_value (gainNode (setGainValue example_page 200 routed_state)) = Some 2
   \<and> map_option gain_value (gainNode (setGainValue example_page 100 routed_state)) = Some 1
   \<and> map_option gain_value (gainNode (setGainValue example_page 500 routed_state)) = Some 5
   \<and> map_option gain_value (gainNode (setGainValue example_page 0 routed_state)) = Some 0
   \<and> \<not> (gainNode graph_state \<noteq> None \<and> \<not> isSiteBlocked example_page graph_state
          \<and> connectedElements graph_state \<noteq> {||})
   \<and> setGainValue example_page 200 graph_state = graph_state
   \<and> \<not> (gainNode blocked_state \<noteq> None \<and> \<not> isSiteBlocked example_page blocked_state
          \<and> connectedElements blocked_state \<noteq> {||})
   \<and> setGainValue example_page 200 blocked_state = blocked_state"
proof -
  have guard: "gainNode routed_state \<noteq> None \<and> \<not> isSiteBlocked example_page routed_state
      \<and> connectedElements routed_state \<noteq> {||}"
    by (simp add: routed_state_eq isSiteBlocked_def)
  have empty: "\<not> (gainNode graph_state \<noteq> None \<and> \<not> isSiteBlocked example_page graph_state
      \<and> connectedElements graph_state \<noteq> {||})"
    by (simp add: graph_state_eq)
  have blocked: "\<not> (gainNode blocked_state \<noteq> None \<and> \<not> isSiteBlocked example_page blocked_state
      \<and> connectedElements blocked_state \<noteq> {||})"
    by (simp add: blocked_state_eq isSiteBlocked_def example_page_def toLowerCase_example)
  show ?thesis
    using guard empty blocked
      setGainValue_applies_iff_guard [of 200 routed_state example_page]
      setGainValue_applies_iff_guard [of 100 routed_state example_page]
      setGainValue_applies_iff_guard [of 500 routed_state example_page]
      setGainValue_applies_iff_guard [of 0 routed_state example_page]
      setGainValue_applies_iff_guard [of 200 graph_state example_page]
      setGainValue_applies_iff_guard [of 200 blocked_state example_page]
    by simp
qed

subsection \<open>Cross-origin check: data and blob URLs\<close>

lemma some_differs_local:
  "list_all (\<lambda>u. startsWith u ''blob:'' \<or> startsWith u ''data:'') us \<Longrightarrow>
   some_differs ev us = Some False"
  by (induction us) (auto simp: source_differs_def)

text \<open>
  When the first check is skipped (the \<open>crossOrigin\<close> attribute is set, or there is no
  current source), an element whose sources are all data or blob URLs is same-origin.
\<close>

lemma isCrossOriginElement_local_sources:
  assumes "list_all (\<lambda>u. startsWith u ''blob:'' \<or> startsWith u ''data:'') (sources el)"
    and "crossOrigin el \<noteq> None \<or> currentSrc el = []"
  shows "\<not> isCrossOriginElement ev el"
  using assms some_differs_local [of "sources el" ev]
  by (auto simp: isCrossOriginElement_def currentSrc_check_def)

text \<open>
  C2. An element all of whose sources are data or blob URLs should be same-origin
  whatever its \<open>crossOrigin\<close> attribute is. The first check of
  \<open>isCrossOriginElement\<close> has no exemption for such URLs: with \<open>crossOrigin\<close>
  unset it compares the origin of \<open>currentSrc\<close>, which for a data URL is the opaque
  origin \<open>null\<close>, with the page's origin, and answers true. The same element with the
  attribute set is same-origin.
\<close>

theorem isCrossOriginElement_data_url_reported_cross_origin:
  "list_all (\<lambda>u. startsWith u ''blob:'' \<or> startsWith u ''data:'') (sources data_url_audio)
   \<and> isCrossOriginElement example_page data_url_audio
   \<and> \<not> isCrossOriginElement example_page (data_url_audio\<lparr>crossOrigin := Some ''anonymous''\<rparr>)"
  by (simp add: model_defs example_defs)

subsection \<open>Graph initialisation\<close>

lemma initAudioContext_existing:
  "audioContext s \<noteq> None \<Longrightarrow> initAudioContext outcome s = (True, s)"
  by auto

lemma initAudioContext_constructor_fails:
  "outcome = ApiUnavailable \<or> outcome = ConstructorThrows e \<Longrightarrow> audioContext s = None \<Longrightarrow>
   initAudioContext outcome s = (False, s)"
  by auto

lemma initAudioContext_constructed:
  "audioContext s = None \<Longrightarrow>
   initAudioContext (Constructed c g) s = (True, s\<lparr>audioContext := Some c, gainNode := Some g\<rparr>)"
  by simp

text \<open>
  C3. \<open>initAudioContext\<close> should leave no graph behind when it fails. It does so when
  the constructor is missing or throws (lemma \<open>initAudioContext_constructor_fails\<close>),
  but the context is stored in the manager before the gain node is created and wired:
  when \<open>createGain\<close> throws, the call returns false and the context stays, without a
  gain node; when the connection to the destination throws, both stay. The next call
  then finds a context and returns true without constructing anything.
\<close>

theorem initAudioContext_failure_keeps_partial_graph:
  "initAudioContext (CreateGainThrows (AudioContext 0) (JsError ''createGain failed''))
       (fresh no_markers)
     = (False, (fresh no_markers)\<lparr>audioContext := Some (AudioContext 0)\<rparr>)
   \<and> initAudioContext
       (ConnectDestinationThrows (AudioContext 0) \<lparr>gain_value = 1\<rparr> (JsError ''connect failed''))
       (fresh no_markers)
     = (False, (fresh no_markers)\<lparr>audioContext := Some (AudioContext 0),
                                   gainNode := Some \<lparr>gain_value = 1\<rparr>\<rparr>)
   \<and> initAudioContext graph_ok ((fresh no_markers)\<lparr>audioContext := Some (AudioContext 0)\<rparr>)
     = (True, (fresh no_markers)\<lparr>audioContext := Some (AudioContext 0)\<rparr>)"
  by (simp add: model_defs example_defs)

subsection \<open>Gain node and context\<close>

text \<open>One half of the invariant holds in every reachable state.\<close>

lemma step_gain_has_context: "gain_has_context s \<Longrightarrow> gain_has_context (step ev c s)"
  by (cases c)
    (auto simp: gain_has_context_def model_defs Let_def
      split: init_outcome.splits bind_outcome.splits option.splits close_outcome.splits)

lemma run_gain_has_context: "gain_has_context s \<Longrightarrow> gain_has_context (run cs s)"
  by (induction cs arbitrary: s) (auto simp: step_gain_has_context)

lemma reachable_gain_has_context: "gain_has_context (run cs (fresh m))"
  by (rule run_gain_has_context) (simp add: gain_has_context_def fresh_def)

text \<open>
  C4. The gain node should be present exactly when the context is. One call of
  \<open>initAudioContext\<close> during which \<open>createGain\<close> throws leads from the fresh
  manager to a state with a context and no gain node.
\<close>

theorem context_without_gain_reachable:
  "audioContext
     (run [(example_page,
            EnsureGraph (CreateGainThrows (AudioContext 0) (JsError ''createGain failed'')))]
        (fresh no_markers)) \<noteq> None
   \<and> gainNode
     (run [(example_page,
            EnsureGraph (CreateGainThrows (AudioContext 0) (JsError ''createGain failed'')))]
        (fresh no_markers)) = None"
  by (simp add: model_defs example_defs)

subsection \<open>Cross-origin check: URLs that do not parse\<close>

lemma currentSrc_check_Some: "currentSrc_check ev el = Some r \<Longrightarrow> r"
  by (auto simp: currentSrc_check_def split: if_splits option.splits)

lemma some_differs_unparsable:
  assumes "u \<in> set us" "\<not> startsWith u ''blob:''" "\<not> startsWith u ''data:''"
    and "url_origin ev u = None"
  shows "some_differs ev us \<noteq> Some False"
  using assms
  by (induction us) (auto simp: source_differs_def split: option.splits bool.splits)

text \<open>
  C5. The method resolves the origin of \<open>currentSrc\<close> in its first check (when
  \<open>crossOrigin\<close> is unset), and of every collected source that is neither a blob nor
  a data URL in the loop. If the \<open>URL\<close> constructor throws on any of these, the
  element is reported cross-origin, also when the loop would stop before reaching it.
\<close>

theorem isCrossOriginElement_fail_safe:
  assumes "(crossOrigin el = None \<and> currentSrc el \<noteq> [] \<and> url_origin ev (currentSrc el) = None)
         \<or> (\<exists>u \<in> set (sources el). \<not> startsWith u ''blob:'' \<and> \<not> startsWith u ''data:''
               \<and> url_origin ev u = None)"
  shows "isCrossOriginElement ev el"
  using assms
proof
  assume "crossOrigin el = None \<and> currentSrc el \<noteq> [] \<and> url_origin ev (currentSrc el) = None"
  then show ?thesis
    by (simp add: isCrossOriginElement_def currentSrc_check_def)
next
  assume "\<exists>u \<in> set (sources el). \<not> startsWith u ''blob:'' \<and> \<not> startsWith u ''data:''
               \<and> url_origin ev u = None"
  then obtain u where u: "u \<in> set (sources el)" "\<not> startsWith u ''blob:''"
    "\<not> startsWith u ''data:''" "url_origin ev u = None"
    by blast
  then have "some_differs ev (sources el) \<noteq> Some False"
    by (rule some_differs_unparsable)
  moreover have "sources el \<noteq> []"
    using u(1) by auto
  ultimately show ?thesis
    by (auto simp: isCrossOriginElement_def split: option.splits dest: currentSrc_check_Some)
qed

theorem isCrossOriginElement_fail_safe_witness:
  "(\<exists>u \<in> set (sources unparsable_audio). \<not> startsWith u ''blob:'' \<and> \<not> startsWith u ''data:''
        \<and> url_origin example_page u = None)
   \<and> isCrossOriginElement example_page unparsable_audio
   \<and> crossOrigin (unparsable_audio\<lparr>crossOrigin := None, currentSrc := ''http://[''\<rparr>) = None
   \<and> currentSrc (unparsable_audio\<lparr>crossOrigin := None, currentSrc := ''http://[''\<rparr>) \<noteq> []
   \<and> url_origin example_page
        (currentSrc (unparsable_audio\<lparr>crossOrigin := None, currentSrc := ''http://[''\<rparr>)) = None
   \<and> isCrossOriginElement example_page
        (unparsable_audio\<lparr>crossOrigin := None, currentSrc := ''http://[''\<rparr>)"
proof -
  have a: "\<exists>u \<in> set (sources unparsable_audio). \<not> startsWith u ''blob:''
        \<and> \<not> startsWith u ''data:'' \<and> url_origin example_page u = None"
    by (simp add: model_defs example_defs)
  have b: "crossOrigin (unparsable_audio\<lparr>crossOrigin := None, currentSrc := ''http://[''\<rparr>) = None
   \<and> currentSrc (unparsable_audio\<lparr>crossOrigin := None, currentSrc := ''http://[''\<rparr>) \<noteq> []
   \<and> url_origin example_page
        (currentSrc (unparsable_audio\<lparr>crossOrigin := None, currentSrc := ''http://[''\<rparr>)) = None"
    by (simp add: model_defs example_defs)
  show ?thesis
    using a b isCrossOriginElement_fail_safe [of unparsable_audio example_page, OF disjI2, OF a]
      isCrossOriginElement_fail_safe
        [of "unparsable_audio\<lparr>crossOrigin := None, currentSrc := ''http://[''\<rparr>" example_page,
         OF disjI1, OF b]
    by simp
qed

subsection \<open>The branches of a connection\<close>

lemma blocked_shouldBlock:
  "elem_id el \<in> blockedElements s \<Longrightarrow> shouldBlockAmplification ev s el"
  by (simp add: shouldBlockAmplification_def)

text \<open>The branches of \<open>tryConnectToAudioContext\<close>, one equation each.\<close>

lemma tryConnect_no_graph:
  "audioContext s = None \<or> gainNode s = None \<Longrightarrow>
   tryConnectToAudioContext ev outcome s el = (False, [], s)"
  by auto

lemma tryConnect_tracked:
  "audioContext s \<noteq> None \<Longrightarrow> gainNode s \<noteq> None \<Longrightarrow> elem_id el |\<in>| connectedElements s \<Longrightarrow>
   tryConnectToAudioContext ev outcome s el = (True, [], s)"
  by auto

lemma tryConnect_marked:
  "audioContext s \<noteq> None \<Longrightarrow> gainNode s \<noteq> None \<Longrightarrow> elem_id el |\<notin>| connectedElements s \<Longrightarrow>
   audioSource s (elem_id el) \<noteq> None \<Longrightarrow>
   tryConnectToAudioContext ev outcome s el
     = (True, [], s\<lparr>connectedElements := finsert (elem_id el) (connectedElements s)\<rparr>)"
  by auto

lemma tryConnect_blocked:
  "audioContext s \<noteq> None \<Longrightarrow> gainNode s \<noteq> None \<Longrightarrow> elem_id el |\<notin>| connectedElements s \<Longrightarrow>
   audioSource s (elem_id el) = None \<Longrightarrow> shouldBlockAmplification ev s el \<Longrightarrow>
   tryConnectToAudioContext ev outcome s el = (False, [], s)"
  by auto

lemma tryConnect_attempt:
  "audioContext s \<noteq> None \<Longrightarrow> gainNode s \<noteq> None \<Longrightarrow> elem_id el |\<notin>| connectedElements s \<Longrightarrow>
   audioSource s (elem_id el) = None \<Longrightarrow> \<not> shouldBlockAmplification ev s el \<Longrightarrow>
   tryConnectToAudioContext ev outcome s el =
     (case outcome of
        Bound source \<Rightarrow>
          (True, [CreateMediaElementSource (elem_id el), ConnectToGain (elem_id el)],
           s\<lparr>connectedElements := finsert (elem_id el) (connectedElements s),
             audioSource := (audioSource s)(elem_id el := Some source)\<rparr>)
      | CreateSourceThrows e \<Rightarrow>
          (False, [CreateMediaElementSource (elem_id el)],
           s\<lparr>blockedElements := insert (elem_id el) (blockedElements s)\<rparr>)
      | ConnectSourceThrows source e \<Rightarrow>
          (False, [CreateMediaElementSource (elem_id el), ConnectToGain (elem_id el)],
           s\<lparr>blockedElements := insert (elem_id el) (blockedElements s)\<rparr>)
      | MarkerStoreThrows source e \<Rightarrow>
          (False, [CreateMediaElementSource (elem_id el), ConnectToGain (elem_id el)],
           s\<lparr>connectedElements := finsert (elem_id el) (connectedElements s),
             blockedElements := insert (elem_id el) (blockedElements s)\<rparr>))"
  by auto

text \<open>The five ways a call of \<open>tryConnectToAudioContext\<close> can end.\<close>

lemma tryConnectToAudioContext_cases:
  assumes "tryConnectToAudioContext ev outcome s el = (r, calls, s')"
  shows "(calls = [] \<and> s' = s
            \<and> (r \<longrightarrow> audioContext s \<noteq> None \<and> gainNode s \<noteq> None
                    \<and> elem_id el |\<in>| connectedElements s))
       \<or> (r \<and> calls = [] \<and> audioContext s \<noteq> None \<and> gainNode s \<noteq> None
            \<and> audioSource s (elem_id el) \<noteq> None
            \<and> s' = s\<lparr>connectedElements := finsert (elem_id el) (connectedElements s)\<rparr>)
       \<or> (r \<and> calls \<noteq> [] \<and> audioContext s \<noteq> None \<and> gainNode s \<noteq> None
            \<and> elem_id el \<notin> blockedElements s
            \<and> (\<exists>source. outcome = Bound source
                 \<and> s' = s\<lparr>connectedElements := finsert (elem_id el) (connectedElements s),
                          audioSource := (audioSource s)(elem_id el := Some source)\<rparr>))
       \<or> (\<not> r \<and> calls \<noteq> [] \<and> (\<forall>source. outcome \<noteq> Bound source)
            \<and> (\<forall>source e. outcome \<noteq> MarkerStoreThrows source e)
            \<and> elem_id el |\<notin>| connectedElements s \<and> audioSource s (elem_id el) = None
            \<and> s' = s\<lparr>blockedElements := insert (elem_id el) (blockedElements s)\<rparr>)
       \<or> (\<not> r \<and> calls \<noteq> [] \<and> (\<exists>source e. outcome = MarkerStoreThrows source e)
            \<and> elem_id el \<notin> blockedElements s
            \<and> elem_id el |\<notin>| connectedElements s \<and> audioSource s (elem_id el) = None
            \<and> s' = s\<lparr>connectedElements := finsert (elem_id el) (connectedElements s),
                     blockedElements := insert (elem_id el) (blockedElements s)\<rparr>)"
proof (cases "audioContext s = None \<or> gainNode s = None")
  case True
  then show ?thesis
    using assms by (simp only: tryConnect_no_graph) simp
next
  case False
  then have graph: "audioContext s \<noteq> None" "gainNode s \<noteq> None"
    by simp_all
  show ?thesis
  proof (cases "elem_id el |\<in>| connectedElements s")
    case True
    then show ?thesis
      using assms graph by (simp only: tryConnect_tracked) simp
  next
    case untracked: False
    show ?thesis
    proof (cases "audioSource s (elem_id el) = None")
      case False
      then show ?thesis
        using assms graph untracked by (simp only: tryConnect_marked) simp
    next
      case unbound: True
      show ?thesis
      proof (cases "shouldBlockAmplification ev s el")
        case True
        then show ?thesis
          using assms graph untracked unbound by (simp only: tryConnect_blocked) simp
      next
        case False
        then have "elem_id el \<notin> blockedElements s"
          using blocked_shouldBlock by blast
        moreover note tryConnect_attempt [OF graph untracked unbound False, of outcome, unfolded assms]
        ultimately show ?thesis
          using graph untracked unbound by (cases outcome) auto
      qed
    qed
  qed
qed

lemma initAudioContext_frame:
  "connectedElements (snd (initAudioContext outcome s)) = connectedElements s
   \<and> blockedSites (snd (initAudioContext outcome s)) = blockedSites s
   \<and> blockedElements (snd (initAudioContext outcome s)) = blockedElements s
   \<and> audioSource (snd (initAudioContext outcome s)) = audioSource s"
  by (cases outcome) simp_all

subsection \<open>Reset\<close>

text \<open>
  C6. In every state reached from a fresh manager, \<open>reset\<close> empties
  \<open>blockedSites\<close>, \<open>blockedElements\<close> and \<open>connectedElements\<close> and drops the
  context and the gain node, whether \<open>close\<close> throws or not; it removes no
  \<open>_audioSource\<close> marker. Once a graph has been constructed again, connecting an
  element that carries a marker returns true, makes no call to the platform, and only adds
  the element to \<open>connectedElements\<close>.
\<close>

theorem reset_then_reconnect:
  "blockedSites (reset outcome (run cs (fresh m))) = {}
   \<and> blockedElements (reset outcome (run cs (fresh m))) = {}
   \<and> connectedElements (reset outcome (run cs (fresh m))) = {||}
   \<and> audioContext (reset outcome (run cs (fresh m))) = None
   \<and> gainNode (reset outcome (run cs (fresh m))) = None
   \<and> audioSource (reset outcome (run cs (fresh m))) = audioSource (run cs (fresh m))
   \<and> (\<forall>el c g ev outcome'.
         audioSource (run cs (fresh m)) (elem_id el) \<noteq> None \<longrightarrow>
         tryConnectToAudioContext ev outcome'
           (snd (initAudioContext (Constructed c g) (reset outcome (run cs (fresh m))))) el
         = (True, [],
            (snd (initAudioContext (Constructed c g) (reset outcome (run cs (fresh m)))))
              \<lparr>connectedElements := {|elem_id el|}\<rparr>))"
proof -
  have "gain_has_context (run cs (fresh m))"
    by (rule reachable_gain_has_context)
  then show ?thesis
    by (cases outcome) (auto simp: gain_has_context_def reset_def Let_def)
qed

theorem reset_then_reconnect_witness:
  "run [(example_page, EnsureGraph graph_ok),
        (example_page, Connect same_origin_audio (Bound (MediaElementSource 0))),
        (example_page, MarkOriginBlocked),
        (example_page, Connect second_audio (CreateSourceThrows (JsError ''InvalidStateError'')))]
     (fresh no_markers) = blocked_state
   \<and> audioSource blocked_state (elem_id same_origin_audio) \<noteq> None
   \<and> reset (CloseThrows (JsError ''close failed'')) blocked_state
       = fresh (no_markers(1 := Some (MediaElementSource 0)))
   \<and> tryConnectToAudioContext example_page (Bound (MediaElementSource 7))
        (snd (initAudioContext (Constructed (AudioContext 1) \<lparr>gain_value = 1\<rparr>)
               (reset (CloseThrows (JsError ''close failed'')) blocked_state)))
        same_origin_audio
       = (True, [],
          \<lparr>audioContext = Some (AudioContext 1), gainNode = Some \<lparr>gain_value = 1\<rparr>,
           connectedElements = {|1|}, blockedSites = {}, blockedElements = {},
           audioSource = no_markers(1 := Some (MediaElementSource 0))\<rparr>)"
proof -
  have m: "audioSource blocked_state (elem_id same_origin_audio) \<noteq> None"
    by (simp add: blocked_state_eq same_origin_audio_def)
  have r: "reset (CloseThrows (JsError ''close failed'')) blocked_state
       = fresh (no_markers(1 := Some (MediaElementSource 0)))"
    by (simp add: blocked_state_eq reset_def fresh_def)
  show ?thesis
    using m r
      reset_then_reconnect [of "CloseThrows (JsError ''close failed'')"
        "[(example_page, EnsureGraph graph_ok),
          (example_page, Connect same_origin_audio (Bound (MediaElementSource 0))),
          (example_page, MarkOriginBlocked),
          (example_page, Connect second_audio (CreateSourceThrows (JsError ''InvalidStateError'')))]"
        no_markers]
    unfolding blocked_state_def [symmetric]
    by (simp add: same_origin_audio_def fresh_def)
qed

subsection \<open>Failure of a binding\<close>

lemma step_failed_element:
  assumes "failed_element e s" and "\<not> is_reset c"
  shows "failed_element e (step ev c s)"
proof (cases c)
  case (EnsureGraph outcome)
  then show ?thesis
    using assms by (simp add: failed_element_def initAudioContext_frame del: initAudioContext.simps)
next
  case (IsAvailable outcome)
  then show ?thesis
    using assms
    by (simp add: failed_element_def isAmplificationAvailable_def initAudioContext_frame
        del: initAudioContext.simps)
next
  case MarkOriginBlocked
  then show ?thesis
    using assms by (simp add: failed_element_def markSiteAsBlocked_def)
next
  case (ShouldBlock el)
  then show ?thesis
    using assms by simp
next
  case (Connect el outcome)
  obtain r calls s' where c: "tryConnectToAudioContext ev outcome s el = (r, calls, s')"
    by (cases "tryConnectToAudioContext ev outcome s el") blast
  have "failed_element e s'"
    using tryConnectToAudioContext_cases [OF c] assms(1)
    by (auto simp: failed_element_def)
  then show ?thesis
    using Connect c by (simp del: tryConnectToAudioContext.simps)
next
  case (SetGain volume)
  then show ?thesis
    using assms by (simp add: failed_element_def setGainValue_def split: option.splits)
next
  case (Untrack el)
  then show ?thesis
    using assms by (simp add: failed_element_def cleanupAudioSource_def)
next
  case (Reset outcome)
  then show ?thesis
    using assms by simp
qed

lemma run_failed_element:
  "failed_element e s \<Longrightarrow> \<forall>c \<in> set cs. \<not> is_reset (snd c) \<Longrightarrow> failed_element e (run cs s)"
  by (induction cs arbitrary: s) (auto simp: step_failed_element simp del: step.simps)

lemma failed_element_not_retried:
  assumes "failed_element (elem_id el) s"
  shows "shouldBlockAmplification ev s el
       \<and> tryConnectToAudioContext ev outcome s el = (False, [], s)"
proof -
  have b: "shouldBlockAmplification ev s el"
    using assms by (simp add: failed_element_def blocked_shouldBlock)
  have "tryConnectToAudioContext ev outcome s el = (False, [], s)"
  proof (cases "audioContext s = None \<or> gainNode s = None")
    case True
    then show ?thesis
      by (rule tryConnect_no_graph)
  next
    case False
    then show ?thesis
      using assms b by (intro tryConnect_blocked) (simp_all add: failed_element_def)
  qed
  with b show ?thesis
    by simp
qed

text \<open>
  C7. When a call of \<open>tryConnectToAudioContext\<close> reaches the platform and the binding
  throws (in \<open>createMediaElementSource\<close> or in \<open>source.connect\<close>), the call returns
  false, and the only change to the state is that the element is added to
  \<open>blockedElements\<close>: \<open>connectedElements\<close> and \<open>blockedSites\<close> are as before.
  From then on and until the next \<open>reset\<close>, whatever else is called and whatever the
  element's sources become, \<open>shouldBlockAmplification\<close> answers true for it and a
  further connect returns false without calling the platform.
\<close>

theorem tryConnectToAudioContext_bind_failure:
  assumes "tryConnectToAudioContext ev outcome s el = (r, calls, s')"
    and "calls \<noteq> []"
    and "outcome = CreateSourceThrows err \<or> outcome = ConnectSourceThrows node err"
  shows "r = False
       \<and> s' = s\<lparr>blockedElements := insert (elem_id el) (blockedElements s)\<rparr>
       \<and> connectedElements s' = connectedElements s \<and> blockedSites s' = blockedSites s
       \<and> (\<forall>cs ev' outcome' el'.
             (\<forall>c \<in> set cs. \<not> is_reset (snd c)) \<and> elem_id el' = elem_id el \<longrightarrow>
             shouldBlockAmplification ev' (run cs s') el'
             \<and> tryConnectToAudioContext ev' outcome' (run cs s') el' = (False, [], run cs s'))"
proof -
  have s': "r = False \<and> s' = s\<lparr>blockedElements := insert (elem_id el) (blockedElements s)\<rparr>"
    and pre: "elem_id el |\<notin>| connectedElements s" "audioSource s (elem_id el) = None"
    using tryConnectToAudioContext_cases [OF assms(1)] assms(2,3) by auto
  have "failed_element (elem_id el) s'"
    using s' pre by (simp add: failed_element_def)
  then have "failed_element (elem_id el') (run cs s')"
    if "\<forall>c \<in> set cs. \<not> is_reset (snd c)" "elem_id el' = elem_id el" for cs and el' :: element
    using that run_failed_element by simp
  then have later: "shouldBlockAmplification ev' (run cs s') el'
             \<and> tryConnectToAudioContext ev' outcome' (run cs s') el' = (False, [], run cs s')"
    if "\<forall>c \<in> set cs. \<not> is_reset (snd c)" "elem_id el' = elem_id el"
    for cs ev' outcome' and el' :: element
    using that by (intro failed_element_not_retried)
  have frame: "connectedElements s' = connectedElements s \<and> blockedSites s' = blockedSites s"
    using s' by simp
  show ?thesis
    using s' frame later by blast
qed

theorem tryConnectToAudioContext_bind_failure_witness:
  "tryConnectToAudioContext example_page (CreateSourceThrows (JsError ''InvalidStateError''))
       graph_state second_audio
     = (False, [CreateMediaElementSource 4], graph_state\<lparr>blockedElements := {4}\<rparr>)
   \<and> [CreateMediaElementSource 4] \<noteq> []
   \<and> \<not> is_reset (SetGain 150) \<and> \<not> is_reset (Connect same_origin_audio (Bound (MediaElementSource 0)))
   \<and> shouldBlockAmplification example_page
        (run [(example_page, SetGain 150),
              (example_page, Connect same_origin_audio (Bound (MediaElementSource 0)))]
           (graph_state\<lparr>blockedElements := {4}\<rparr>)) second_audio
   \<and> tryConnectToAudioContext example_page (Bound (MediaElementSource 1))
        (run [(example_page, SetGain 150),
              (example_page, Connect same_origin_audio (Bound (MediaElementSource 0)))]
           (graph_state\<lparr>blockedElements := {4}\<rparr>)) second_audio
     = (False, [],
        run [(example_page, SetGain 150),
             (example_page, Connect same_origin_audio (Bound (MediaElementSource 0)))]
          (graph_state\<lparr>blockedElements := {4}\<rparr>))"
proof -
  have a: "tryConnectToAudioContext example_page (CreateSourceThrows (JsError ''InvalidStateError''))
       graph_state second_audio
     = (False, [CreateMediaElementSource 4], graph_state\<lparr>blockedElements := {4}\<rparr>)"
    by (simp add: graph_state_eq second_audio_def model_defs example_defs)
  have b: "[CreateMediaElementSource 4] \<noteq> []"
    by simp
  have c: "CreateSourceThrows (JsError ''InvalidStateError'') = CreateSourceThrows (JsError ''InvalidStateError'')
         \<or> CreateSourceThrows (JsError ''InvalidStateError'')
            = ConnectSourceThrows (MediaElementSource 0) (JsError ''InvalidStateError'')"
    by simp
  have d: "\<forall>c \<in> set [(example_page, SetGain 150),
              (example_page, Connect same_origin_audio (Bound (MediaElementSource 0)))].
             \<not> is_reset (snd c)"
    by simp
  have "shouldBlockAmplification example_page
        (run [(example_page, SetGain 150),
              (example_page, Connect same_origin_audio (Bound (MediaElementSource 0)))]
           (graph_state\<lparr>blockedElements := {4}\<rparr>)) second_audio
   \<and> tryConnectToAudioContext example_page (Bound (MediaElementSource 1))
        (run [(example_page, SetGain 150),
              (example_page, Connect same_origin_audio (Bound (MediaElementSource 0)))]
           (graph_state\<lparr>blockedElements := {4}\<rparr>)) second_audio
     = (False, [],
        run [(example_page, SetGain 150),
             (example_page, Connect same_origin_audio (Bound (MediaElementSource 0)))]
          (graph_state\<lparr>blockedElements := {4}\<rparr>))"
    using tryConnectToAudioContext_bind_failure [OF a b c] d by blast
  with a show ?thesis
    by (simp del: tryConnectToAudioContext.simps run.simps)
qed

subsection \<open>Tracked and blocked elements\<close>

text \<open>
  As long as no store of \<open>_audioSource\<close> throws, a blocked element is neither tracked
  nor marked, so \<open>connectedElements\<close> and \<open>blockedElements\<close> are disjoint.
\<close>

lemma tryConnect_blocked_unbound:
  assumes "blocked_unbound s" and "tryConnectToAudioContext ev outcome s el = (r, calls, s')"
    and "\<forall>source e. outcome \<noteq> MarkerStoreThrows source e"
  shows "blocked_unbound s'"
  using tryConnectToAudioContext_cases [OF assms(2)] assms(1,3)
  by (auto simp: blocked_unbound_def)

lemma reset_blocked_unbound: "blocked_unbound (reset outcome s)"
  by (simp add: blocked_unbound_def reset_def Let_def split: close_outcome.splits)

lemma initAudioContext_blocked_unbound:
  "blocked_unbound s \<Longrightarrow> blocked_unbound (snd (initAudioContext outcome s))"
  by (simp add: blocked_unbound_def initAudioContext_frame del: initAudioContext.simps)

lemma marker_store_throws_Connect:
  "\<not> marker_store_throws (Connect el outcome) \<Longrightarrow> \<forall>source e. outcome \<noteq> MarkerStoreThrows source e"
  by (cases outcome) simp_all

lemma step_blocked_unbound:
  assumes "blocked_unbound s" and "\<not> marker_store_throws c"
  shows "blocked_unbound (step ev c s)"
proof (cases c)
  case (EnsureGraph outcome)
  then show ?thesis
    using assms(1) initAudioContext_blocked_unbound by (simp del: initAudioContext.simps)
next
  case (IsAvailable outcome)
  then show ?thesis
    using assms(1) initAudioContext_blocked_unbound
    by (simp add: isAmplificationAvailable_def del: initAudioContext.simps)
next
  case MarkOriginBlocked
  then show ?thesis
    using assms(1) by (simp add: blocked_unbound_def markSiteAsBlocked_def)
next
  case (ShouldBlock el)
  then show ?thesis
    using assms(1) by simp
next
  case (Connect el outcome)
  obtain r calls s' where c: "tryConnectToAudioContext ev outcome s el = (r, calls, s')"
    by (cases "tryConnectToAudioContext ev outcome s el") blast
  have "\<forall>source e. outcome \<noteq> MarkerStoreThrows source e"
    using assms(2) Connect by (intro marker_store_throws_Connect) simp
  then have "blocked_unbound s'"
    using assms(1) c tryConnect_blocked_unbound by blast
  then show ?thesis
    using Connect c by (simp del: tryConnectToAudioContext.simps)
next
  case (SetGain volume)
  then show ?thesis
    using assms(1) by (simp add: blocked_unbound_def setGainValue_def split: option.splits)
next
  case (Untrack el)
  then show ?thesis
    using assms(1) by (simp add: blocked_unbound_def cleanupAudioSource_def)
next
  case (Reset outcome)
  then show ?thesis
    using reset_blocked_unbound by simp
qed

lemma run_blocked_unbound:
  "blocked_unbound s \<Longrightarrow> \<forall>c \<in> set cs. \<not> marker_store_throws (snd c) \<Longrightarrow>
   blocked_unbound (run cs s)"
  by (induction cs arbitrary: s) (auto simp: step_blocked_unbound simp del: step.simps)

lemma disjoint_unless_marker_store_throws:
  assumes "\<forall>c \<in> set cs. \<not> marker_store_throws (snd c)"
  shows "fset (connectedElements (run cs (fresh m))) \<inter> blockedElements (run cs (fresh m)) = {}"
proof -
  have "blocked_unbound (fresh m)"
    by (simp add: blocked_unbound_def fresh_def)
  then have "blocked_unbound (run cs (fresh m))"
    using assms by (rule run_blocked_unbound)
  then show ?thesis
    by (auto simp: blocked_unbound_def)
qed

text \<open>
  C8. No element should be in \<open>connectedElements\<close> and in \<open>blockedElements\<close> at
  once. \<open>tryConnectToAudioContext\<close> adds the element to \<open>connectedElements\<close>
  before the last statement of its \<open>try\<close> that can throw, the store of
  \<open>_audioSource\<close>, and the \<open>catch\<close> adds the element to \<open>blockedElements\<close>
  without taking it out of \<open>connectedElements\<close>. From a fresh manager, building the
  graph and one connect during which that store throws reach a state with the element in
  both sets: the call returns false, yet the element counts as tracked, and the next
  connect on it returns true.
\<close>

theorem marker_store_failure_tracked_and_blocked:
  "tryConnectToAudioContext example_page
       (MarkerStoreThrows (MediaElementSource 0) (JsError ''object is not extensible''))
       graph_state same_origin_audio
     = (False, [CreateMediaElementSource 1, ConnectToGain 1],
        graph_state\<lparr>connectedElements := {|1|}, blockedElements := {1}\<rparr>)
   \<and> run marker_failure_calls (fresh no_markers)
     = graph_state\<lparr>connectedElements := {|1|}, blockedElements := {1}\<rparr>
   \<and> 1 |\<in>| connectedElements (run marker_failure_calls (fresh no_markers))
   \<and> 1 \<in> blockedElements (run marker_failure_calls (fresh no_markers))
   \<and> fset (connectedElements (run marker_failure_calls (fresh no_markers)))
        \<inter> blockedElements (run marker_failure_calls (fresh no_markers)) \<noteq> {}
   \<and> shouldBlockAmplification example_page (run marker_failure_calls (fresh no_markers))
        same_origin_audio
   \<and> fst (tryConnectToAudioContext example_page (Bound (MediaElementSource 1))
             (run marker_failure_calls (fresh no_markers)) same_origin_audio)"
  by (simp add: marker_failure_calls_def graph_state_eq model_defs example_defs)

subsection \<open>Connecting twice\<close>

lemma step_tracked_in_graph:
  assumes "tracked_in_graph e s" and "\<not> drops e c"
  shows "tracked_in_graph e (step ev c s)"
proof (cases c)
  case (EnsureGraph outcome)
  have "initAudioContext outcome s = (True, s)"
    using assms(1) by (intro initAudioContext_existing) (simp add: tracked_in_graph_def)
  then show ?thesis
    using EnsureGraph assms(1) by (simp del: initAudioContext.simps)
next
  case (IsAvailable outcome)
  have "audioContext s \<noteq> None"
    using assms(1) by (simp add: tracked_in_graph_def)
  then have "snd (isAmplificationAvailable ev outcome s) = s"
    by (simp add: isAmplificationAvailable_def del: initAudioContext.simps)
  then show ?thesis
    using IsAvailable assms(1) by simp
next
  case MarkOriginBlocked
  then show ?thesis
    using assms by (simp add: tracked_in_graph_def markSiteAsBlocked_def)
next
  case (ShouldBlock el)
  then show ?thesis
    using assms by simp
next
  case (Connect el outcome)
  obtain r calls s' where c: "tryConnectToAudioContext ev outcome s el = (r, calls, s')"
    by (cases "tryConnectToAudioContext ev outcome s el") blast
  have "tracked_in_graph e s'"
    using tryConnectToAudioContext_cases [OF c] assms(1)
    by (auto simp: tracked_in_graph_def)
  then show ?thesis
    using Connect c by (simp del: tryConnectToAudioContext.simps)
next
  case (SetGain volume)
  then show ?thesis
    using assms by (auto simp: tracked_in_graph_def setGainValue_def split: option.splits)
next
  case (Untrack el)
  then show ?thesis
    using assms by (simp add: tracked_in_graph_def cleanupAudioSource_def)
next
  case (Reset outcome)
  then show ?thesis
    using assms by simp
qed

lemma run_tracked_in_graph:
  "tracked_in_graph e s \<Longrightarrow> \<forall>c \<in> set cs. \<not> drops e (snd c) \<Longrightarrow> tracked_in_graph e (run cs s)"
  by (induction cs arbitrary: s) (auto simp: step_tracked_in_graph simp del: step.simps)

lemma tryConnect_True_tracked:
  assumes "tryConnectToAudioContext ev outcome s el = (True, calls, s')"
  shows "tracked_in_graph (elem_id el) s'"
  using tryConnectToAudioContext_cases [OF assms] by (auto simp: tracked_in_graph_def)

text \<open>
  C9. After a call of \<open>tryConnectToAudioContext\<close> that returned true, a call on the
  same element returns true again, makes no call to the platform and leaves the whole
  state, hence the size of \<open>connectedElements\<close>, as it is. This holds for the very
  next call and after any further calls other than \<open>reset\<close> and
  \<open>cleanupAudioSource\<close> of that element, whatever the element's attributes have
  become and whatever the platform would have answered.
\<close>

theorem tryConnectToAudioContext_again:
  assumes "tryConnectToAudioContext ev outcome s el = (True, calls, s')"
    and "\<forall>c \<in> set cs. \<not> drops (elem_id el) (snd c)"
    and "elem_id el' = elem_id el"
  shows "tryConnectToAudioContext ev' outcome' (run cs s') el' = (True, [], run cs s')"
proof -
  have "tracked_in_graph (elem_id el) s'"
    using assms(1) by (rule tryConnect_True_tracked)
  then have "tracked_in_graph (elem_id el') (run cs s')"
    using assms(2,3) by (simp add: run_tracked_in_graph)
  then show ?thesis
    by (simp add: tracked_in_graph_def tryConnect_tracked del: tryConnectToAudioContext.simps)
qed

theorem tryConnectToAudioContext_again_witness:
  "tryConnectToAudioContext example_page (Bound (MediaElementSource 0)) graph_state same_origin_audio
     = (True, [CreateMediaElementSource 1, ConnectToGain 1], routed_state)
   \<and> \<not> drops (elem_id same_origin_audio) (SetGain 150)
   \<and> \<not> drops (elem_id same_origin_audio) (Untrack second_audio)
   \<and> elem_id (same_origin_audio\<lparr>src := ''https://cdn.example.net/b.mp3''\<rparr>) = elem_id same_origin_audio
   \<and> tryConnectToAudioContext example_page (CreateSourceThrows (JsError ''InvalidStateError''))
        routed_state (same_origin_audio\<lparr>src := ''https://cdn.example.net/b.mp3''\<rparr>)
     = (True, [], routed_state)
   \<and> tryConnectToAudioContext example_page (CreateSourceThrows (JsError ''InvalidStateError''))
        (run [(example_page, SetGain 150), (example_page, Untrack second_audio)] routed_state)
        (same_origin_audio\<lparr>src := ''https://cdn.example.net/b.mp3''\<rparr>)
     = (True, [], run [(example_page, SetGain 150), (example_page, Untrack second_audio)] routed_state)"
proof -
  have a: "tryConnectToAudioContext example_page (Bound (MediaElementSource 0)) graph_state same_origin_audio
     = (True, [CreateMediaElementSource 1, ConnectToGain 1], routed_state)"
    by (simp add: graph_state_eq routed_state_eq)
      (simp add: model_defs example_page_def same_origin_audio_def no_markers_def)
  have b: "elem_id (same_origin_audio\<lparr>src := ''https://cdn.example.net/b.mp3''\<rparr>)
           = elem_id same_origin_audio"
    by simp
  have c: "\<forall>c \<in> set [(example_page, SetGain 150), (example_page, Untrack second_audio)].
             \<not> drops (elem_id same_origin_audio) (snd c)"
    by (simp add: same_origin_audio_def second_audio_def)
  have d: "\<forall>c \<in> set []. \<not> drops (elem_id same_origin_audio) (snd (c :: env \<times> op))"
    by simp
  show ?thesis
    using a b c
      tryConnectToAudioContext_again [OF a c b]
      tryConnectToAudioContext_again [OF a d b]
    by (simp del: tryConnectToAudioContext.simps run.simps) (simp del: tryConnectToAudioContext.simps)
qed

subsection \<open>The block decision\<close>

lemma isCrossOriginElement_cong:
  assumes "crossOrigin el' = crossOrigin el" and "src el' = src el"
    and "currentSrc el' = currentSrc el" and "sourceSrc el' = sourceSrc el"
  shows "isCrossOriginElement ev el' = isCrossOriginElement ev el"
  unfolding isCrossOriginElement_def currentSrc_check_def sources_def assms
  by (rule refl)

text \<open>
  C10. \<open>shouldBlockAmplification\<close> depends only on whether the element is in
  \<open>blockedElements\<close> and on the attributes of the element that the cross-origin
  check reads (on the page at hand): two calls that agree on these return the same
  boolean, whatever else differs in the manager. The call changes nothing in the state.
  This holds for every element, connected before or not.
\<close>

theorem shouldBlockAmplification_pure:
  assumes "elem_id el' \<in> blockedElements s' \<longleftrightarrow> elem_id el \<in> blockedElements s"
    and "crossOrigin el' = crossOrigin el" and "src el' = src el"
    and "currentSrc el' = currentSrc el" and "sourceSrc el' = sourceSrc el"
  shows "shouldBlockAmplification ev s' el' = shouldBlockAmplification ev s el
         \<and> step ev (ShouldBlock el) s = s"
proof
  show "shouldBlockAmplification ev s' el' = shouldBlockAmplification ev s el"
    unfolding shouldBlockAmplification_def assms(1) isCrossOriginElement_cong [OF assms(2-5), of ev]
    by (rule refl)
  show "step ev (ShouldBlock el) s = s"
    by simp
qed

theorem shouldBlockAmplification_pure_witness:
  "(elem_id (data_url_audio\<lparr>elem_id := 9\<rparr>) \<in> blockedElements (fresh no_markers)
      \<longleftrightarrow> elem_id data_url_audio \<in> blockedElements routed_state)
   \<and> shouldBlockAmplification example_page (fresh no_markers) (data_url_audio\<lparr>elem_id := 9\<rparr>)
       = shouldBlockAmplification example_page routed_state data_url_audio
   \<and> step example_page (ShouldBlock data_url_audio) routed_state = routed_state"
proof -
  have a: "elem_id (data_url_audio\<lparr>elem_id := 9\<rparr>) \<in> blockedElements (fresh no_markers)
      \<longleftrightarrow> elem_id data_url_audio \<in> blockedElements routed_state"
    by (simp add: routed_state_eq fresh_def)
  show ?thesis
    using a shouldBlockAmplification_pure
      [of "data_url_audio\<lparr>elem_id := 9\<rparr>" "fresh no_markers" data_url_audio routed_state example_page, OF a]
    by simp
qed

end
